theory Spec2Isabelle
  imports Main "HOL-Library.Char_ord" "HOL-Library.List_Lexorder" "HOL-Library.Word"
begin

section \<open>EchoPost: the durable queue, the replay pass and the lifecycle loop\<close>

text \<open>
  A shallow embedding of the Go sources of EchoPost: \<^verbatim>\<open>tools/pebble.go\<close> (SendLog,
  FlushPebbleDB, deleteKeysBatch, ProcessPebble, PebbleIsEmpty), \<^verbatim>\<open>tools/client.go\<close>
  (logToFile, sendToServer, IsHealthSuccess), \<^verbatim>\<open>tools/config.go\<close> (ServerConfig,
  EnableAcceptingFlag, DisableAcceptingFlag), \<^verbatim>\<open>tools/log.go\<close> (LogJson) and the control
  loop of \<^verbatim>\<open>main.go\<close>.

  Everything outside the repository is an explicit part of the model: the Pebble store is a
  record holding the committed entries together with the errors its calls return, and the
  libraries and the outside world the code talks to (\<^verbatim>\<open>encoding/json\<close>, the HTTP client, the
  clock, the random source, the cancellation context) are the fields of an environment record,
  so that every theorem holds for every behaviour of these collaborators.
\<close>

subsection \<open>Go values\<close>

type_synonym bytes = string

text \<open>A Go \<^verbatim>\<open>error\<close> value, identified by its message (\<^verbatim>\<open>err.Error()\<close>).\<close>

datatype error = Error (Error_msg: string)

text \<open>
  The dynamic values (\<^verbatim>\<open>any\<close>) the code handles: what \<^verbatim>\<open>json.Unmarshal\<close> puts into a
  \<^verbatim>\<open>map[string]any\<close> (nil, bool, float64, string, slices and maps), and the \<^verbatim>\<open>int\<close> status
  code that sendToServer stores in a log context. A float64 is its 64-bit pattern: the code
  never computes with one.
\<close>

datatype any =
    ANil
  | ABool bool
  | AInt int
  | AFloat64 "64 word"
  | AString string
  | ASlice "any list"
  | AMap "(string \<times> any) list"

text \<open>
  A \<^verbatim>\<open>map[string]any\<close>: \<open>None\<close> is the nil map, which \<^verbatim>\<open>json.Unmarshal\<close> leaves for the text
  \<^verbatim>\<open>null\<close>; otherwise an association list, the empty map \<^verbatim>\<open>map[string]any{}\<close> being
  \<open>Some []\<close>.
\<close>

type_synonym document = "(string \<times> any) list option"

text \<open>\<^verbatim>\<open>type logRecord struct\<close> (pebble.go).\<close>

record logRecord =
  Payload :: document
  Pipelines :: "string list"
  ReceivedAt :: string

text \<open>\<^verbatim>\<open>pb.LogRequest\<close> and \<^verbatim>\<open>pb.LogResponse\<close>, the messages of the SendLog call.\<close>

record LogRequest =
  JsonData :: string
  req_Pipelines :: "string list"

record LogResponse =
  Success :: bool
  Message :: string

text \<open>What a function call produces: it returns, or the goroutine panics.\<close>

datatype 'a outcome = Returns 'a | Panics

subsection \<open>\<^verbatim>\<open>fmt.Sprintf("%d", n)\<close>\<close>

definition digit :: "nat \<Rightarrow> char" where
  "digit d = ''0123456789'' ! d"

function digits :: "nat \<Rightarrow> string" where
  "digits n = (if n < 10 then [digit n] else digits (n div 10) @ [digit (n mod 10)])"
  by pat_completeness auto
termination
  by (relation "measure id") auto

declare digits.simps [simp del]

definition Sprintf_d :: "int \<Rightarrow> string" where
  "Sprintf_d i = (if i < 0 then CHR ''-'' # digits (nat (- i)) else digits (nat i))"

subsection \<open>The Pebble store\<close>

text \<open>
  A \<^verbatim>\<open>*pebble.DB\<close> that is not nil. \<open>entries\<close> are the committed key/value pairs in
  ascending key order (Pebble's default comparer orders keys bytewise, which is the
  lexicographic order of \<^typ>\<open>string\<close>). The remaining fields are the failures of the calls
  of the store; \<open>None\<close> is a call that succeeds. \<open>set_fault\<close>, \<open>iter_fault\<close>,
  \<open>delete_fault\<close>, \<open>commit_fault\<close>, \<open>flush_fault\<close> and \<open>sync_fault\<close> are the errors
  returned by \<^verbatim>\<open>Set\<close>, \<^verbatim>\<open>NewIter\<close>, \<^verbatim>\<open>Batch.Delete\<close>, \<^verbatim>\<open>Batch.Commit\<close>, \<^verbatim>\<open>Flush\<close> and
  \<^verbatim>\<open>LogData\<close>. \<open>read_fault = Some n\<close> is an iterator that meets a read error after \<open>n\<close>
  entries: from there on \<^verbatim>\<open>First\<close>, \<^verbatim>\<open>Next\<close> and \<^verbatim>\<open>Valid\<close> report no entry, and the error
  is only to be had from \<^verbatim>\<open>iter.Error()\<close>, which the code never calls.
\<close>

record pebble_db =
  entries :: "(bytes \<times> bytes) list"
  set_fault :: "error option"
  iter_fault :: "error option"
  delete_fault :: "bytes \<Rightarrow> error option"
  commit_fault :: "error option"
  flush_fault :: "error option"
  sync_fault :: "error option"
  read_fault :: "nat option"

fun upsert :: "bytes \<Rightarrow> bytes \<Rightarrow> (bytes \<times> bytes) list \<Rightarrow> (bytes \<times> bytes) list" where
  "upsert k v [] = [(k, v)]"
| "upsert k v ((k', v') # es) =
     (if k < k' then (k, v) # (k', v') # es
      else if k = k' then (k, v) # es
      else (k', v') # upsert k v es)"

text \<open>\<^verbatim>\<open>db.Set(key, value, pebble.NoSync)\<close>: stores the value under the key, replacing what the key held.\<close>

definition Db_Set :: "pebble_db \<Rightarrow> bytes \<Rightarrow> bytes \<Rightarrow> error option \<times> pebble_db" where
  "Db_Set db k v =
     (case set_fault db of
        Some err \<Rightarrow> (Some err, db)
      | None \<Rightarrow> (None, db\<lparr>entries := upsert k v (entries db)\<rparr>))"

text \<open>
  \<^verbatim>\<open>db.NewIter(nil)\<close>: an error, or an iterator over a snapshot of the store, as the list of
  the entries it will show, first to last: all the entries, or the entries before its read
  error. \<^verbatim>\<open>iter.First()\<close> reports whether it shows a first entry.
\<close>

type_synonym iterator = "(bytes \<times> bytes) list"

definition Db_NewIter :: "pebble_db \<Rightarrow> error + iterator" where
  "Db_NewIter db =
     (case iter_fault db of
        Some err \<Rightarrow> Inl err
      | None \<Rightarrow>
          Inr (case read_fault db of None \<Rightarrow> entries db | Some n \<Rightarrow> take n (entries db)))"


text \<open>
  A write batch is the list of the keys whose deletion it has recorded. \<^verbatim>\<open>batch.Commit\<close>
  applies the whole batch or, when it fails, nothing of it (Pebble's contract for a batch).
\<close>

type_synonym batch = "bytes list"

definition Db_NewBatch :: "pebble_db \<Rightarrow> batch" where
  "Db_NewBatch db = []"

definition Batch_Delete :: "pebble_db \<Rightarrow> batch \<Rightarrow> bytes \<Rightarrow> error + batch" where
  "Batch_Delete db b k = (case delete_fault db k of Some err \<Rightarrow> Inl err | None \<Rightarrow> Inr (b @ [k]))"

definition Batch_Commit :: "pebble_db \<Rightarrow> batch \<Rightarrow> error option \<times> pebble_db" where
  "Batch_Commit db b =
     (case commit_fault db of
        Some err \<Rightarrow> (Some err, db)
      | None \<Rightarrow> (None, db\<lparr>entries := filter (\<lambda>e. fst e \<notin> set b) (entries db)\<rparr>))"

text \<open>The loop of deleteKeysBatch: \<^verbatim>\<open>for _, key := range keys\<close>, returning at the first error.\<close>

fun deleteKeysBatch_loop :: "pebble_db \<Rightarrow> batch \<Rightarrow> bytes list \<Rightarrow> error + batch" where
  "deleteKeysBatch_loop db b [] = Inr b"
| "deleteKeysBatch_loop db b (key # keys) =
     (case Batch_Delete db b key of
        Inl err \<Rightarrow> Inl err
      | Inr b' \<Rightarrow> deleteKeysBatch_loop db b' keys)"

text \<open>
  \<^verbatim>\<open>func deleteKeysBatch(db *pebble.DB, keys [][]byte) error\<close>. A batch that is closed
  without a commit (the deferred \<^verbatim>\<open>batch.Close()\<close>) leaves the store as it was.
\<close>

definition deleteKeysBatch :: "pebble_db \<Rightarrow> bytes list \<Rightarrow> error option \<times> pebble_db" where
  "deleteKeysBatch db keys =
     (case deleteKeysBatch_loop db (Db_NewBatch db) keys of
        Inl err \<Rightarrow> (Some err, db)
      | Inr b \<Rightarrow> Batch_Commit db b)"

subsection \<open>The agent's state and its surroundings\<close>

text \<open>
  One line of an outcome log. logToFile marshals the map
  \<^verbatim>\<open>{"log_data": rec, "context": extras}\<close> and writes it with a newline; the line is kept
  here as that map, before marshalling. A write to an open log appends the line: the code
  drops what \<^verbatim>\<open>Write\<close> returns.
\<close>

record log_line =
  log_data :: logRecord
  log_context :: "(string \<times> any) list"

text \<open>
  \<^verbatim>\<open>type Files struct\<close> and \<^verbatim>\<open>type ServerConfig struct\<close> (config.go). \<open>Db\<close> is the
  \<^verbatim>\<open>*pebble.DB\<close>, \<open>None\<close> when nil. A \<^verbatim>\<open>*os.File\<close> is \<open>None\<close> when nil; the handle of an
  outcome log carries the lines written to the file, the handle of the accepting flag the
  path it was opened on.
\<close>

record ServerConfig =
  ApiKey :: string
  ServerHost :: string
  Db :: "pebble_db option"
  acceptingFlagPath :: string
  AcceptingFlag :: "string option"
  successLog :: "log_line list option"
  failureLog :: "log_line list option"
  SocketPath :: string
  dbPath :: string

text \<open>
  The request that \<^verbatim>\<open>client.Post\<close> sends and the response it returns; \<open>Body\<close> is the text
  that \<^verbatim>\<open>resp.String()\<close> gives.
\<close>

record request =
  url :: string
  headers :: "(string \<times> string) list"
  body :: bytes
  contentType :: string

record response =
  StatusCode :: int
  Body :: string

text \<open>
  What the process changes outside the ServerConfig: the events printed by LogJson (event
  name and fields; the time stamp LogJson adds is left out), the POST requests issued so far,
  the paths that exist in the file system, and \<open>clock\<close>, the number of observations of the
  surroundings made so far.
\<close>

record world =
  stdout :: "(string \<times> (string \<times> any) list) list"
  posts :: "request list"
  files :: "string set"
  clock :: nat

text \<open>
  The surroundings. The library functions take their arguments; what is observed of the
  outside world (the cancellation context, the remote server, the wall clock, the random
  source) also takes the value of \<open>clock\<close> at the observation, so that two observations
  may differ.

  \<^item> \<open>json_Unmarshal_map\<close>: \<^verbatim>\<open>json.Unmarshal(data, &out)\<close> with \<^verbatim>\<open>out map[string]any\<close>;
  \<^item> \<open>json_Marshal_rec\<close>: the bytes of \<^verbatim>\<open>data, _ := json.Marshal(rec)\<close>;
  \<^item> \<open>json_Unmarshal_rec\<close>: \<^verbatim>\<open>json.Unmarshal(value, &rec)\<close> with \<^verbatim>\<open>rec logRecord\<close>;
  \<^item> \<open>json_Marshal_body\<close>: \<^verbatim>\<open>json.Marshal\<close> of \<^verbatim>\<open>{"pipelines": .., "log_data": ..}\<close>;
  \<^item> \<open>client_Post\<close>, \<open>client_Get\<close>: the calls of the HTTP client, returning an error or a
    response;
  \<^item> \<open>ctx_Err\<close>: whether \<^verbatim>\<open>ctx.Err() != nil\<close>;
  \<^item> \<open>time_UnixNano\<close>: \<^verbatim>\<open>time.Now().UnixNano()\<close>; \<open>time_Format\<close>: the RFC3339Nano text of
    such an instant in UTC;
  \<^item> \<open>rand_source\<close>: the random source read by \<^verbatim>\<open>rand.Intn\<close>;
  \<^item> \<open>os_OpenFile_fault\<close>: the error with which \<^verbatim>\<open>os.OpenFile\<close> fails to create a file at a
    path for a reason other than the file being there (a missing directory, permissions, no
    descriptor left), \<open>None\<close> when there is no such reason.
\<close>

record env =
  json_Unmarshal_map :: "bytes \<Rightarrow> error + document"
  json_Marshal_rec :: "logRecord \<Rightarrow> bytes"
  json_Unmarshal_rec :: "bytes \<Rightarrow> error + logRecord"
  json_Marshal_body :: "string list \<Rightarrow> document \<Rightarrow> error + bytes"
  client_Post :: "nat \<Rightarrow> request \<Rightarrow> error + response"
  client_Get :: "nat \<Rightarrow> string \<Rightarrow> error + response"
  ctx_Err :: "nat \<Rightarrow> bool"
  time_UnixNano :: "nat \<Rightarrow> int"
  time_Format :: "int \<Rightarrow> string"
  rand_source :: "nat \<Rightarrow> nat"
  os_OpenFile_fault :: "nat \<Rightarrow> string \<Rightarrow> error option"

definition tick :: "world \<Rightarrow> world" where
  "tick w = w\<lparr>clock := Suc (clock w)\<rparr>"

text \<open>\<^verbatim>\<open>rand.Intn(n)\<close>: a number in \<open>[0, n)\<close>.\<close>

definition rand_Intn :: "env \<Rightarrow> nat \<Rightarrow> nat \<Rightarrow> int" where
  "rand_Intn env t n = int (rand_source env t mod n)"

text \<open>\<^verbatim>\<open>func LogJson(event string, fields map[string]any)\<close> (log.go).\<close>

definition LogJson :: "string \<Rightarrow> (string \<times> any) list \<Rightarrow> world \<Rightarrow> world" where
  "LogJson event flds w = w\<lparr>stdout := stdout w @ [(event, flds)]\<rparr>"

subsection \<open>Ingestion: SendLog\<close>

text \<open>
  \<^verbatim>\<open>func (s *server) SendLog(ctx, req) (*pb.LogResponse, error)\<close> (pebble.go). The Go error
  it returns is always nil and is left out. \<^verbatim>\<open>time.Now()\<close> is read twice, for
  \<open>ReceivedAt\<close> and for the key. \<^verbatim>\<open>s.config.Db.Set\<close> on a nil \<open>Db\<close> panics.
\<close>

definition SendLog_key :: "int \<Rightarrow> int \<Rightarrow> bytes" where
  "SendLog_key nanos r = Sprintf_d nanos @ ''_'' @ Sprintf_d r"

definition SendLog ::
  "env \<Rightarrow> ServerConfig \<Rightarrow> LogRequest \<Rightarrow> world \<Rightarrow> LogResponse outcome \<times> ServerConfig \<times> world" where
  "SendLog env c req w =
     (let out = (case json_Unmarshal_map env (JsonData req) of
                   Inl err \<Rightarrow> Some []
                 | Inr m \<Rightarrow> m);
          rec = \<lparr>Payload = out, Pipelines = req_Pipelines req,
                 ReceivedAt = time_Format env (time_UnixNano env (clock w))\<rparr>;
          w1 = tick w;
          data = json_Marshal_rec env rec;
          key = SendLog_key (time_UnixNano env (clock w1)) (rand_Intn env (Suc (clock w1)) 1000);
          w2 = tick (tick w1)
      in case Db c of
           None \<Rightarrow> (Panics, c, w2)
         | Some db \<Rightarrow>
             (case Db_Set db key data of
                (Some err, db') \<Rightarrow>
                  (Returns \<lparr>Success = False, Message = ''Db write failed''\<rparr>,
                   c\<lparr>Db := Some db'\<rparr>,
                   LogJson ''pebble_write_error'' [(''error'', AString (Error_msg err))] w2)
              | (None, db') \<Rightarrow>
                  (Returns \<lparr>Success = True, Message = ''stored''\<rparr>,
                   c\<lparr>Db := Some db'\<rparr>,
                   LogJson ''log_stored'' [(''key'', AString key)] w2)))"

subsection \<open>Delivery: logToFile, sendToServer, IsHealthSuccess\<close>

text \<open>\<^verbatim>\<open>func (c *ServerConfig) logToFile(rec, isSuccess, extras)\<close> (client.go).\<close>

definition logToFile ::
  "ServerConfig \<Rightarrow> logRecord \<Rightarrow> bool \<Rightarrow> (string \<times> any) list \<Rightarrow> ServerConfig" where
  "logToFile c rec isSuccess extras =
     (let line = \<lparr>log_data = rec, log_context = extras\<rparr> in
      if isSuccess \<and> successLog c \<noteq> None then
        c\<lparr>successLog := map_option (\<lambda>ls. ls @ [line]) (successLog c)\<rparr>
      else if \<not> isSuccess \<and> failureLog c \<noteq> None then
        c\<lparr>failureLog := map_option (\<lambda>ls. ls @ [line]) (failureLog c)\<rparr>
      else c)"

text \<open>
  \<^verbatim>\<open>func (c *ServerConfig) sendToServer(rec, client) (bool, error)\<close> (client.go). The result
  is the pair of the Go function, the error being \<open>None\<close> for nil. \<^verbatim>\<open>client.Post\<close> returns an
  error (a transport-level failure) or a response. \<open>trigger_request\<close> is the request it
  is called with: the URL \<^verbatim>\<open>triggerURL\<close>, the API key header, the marshalled body and its
  content type.
\<close>

definition trigger_request :: "ServerConfig \<Rightarrow> bytes \<Rightarrow> request" where
  "trigger_request c jsonBody =
     \<lparr>url = ServerHost c @ ''/log'', headers = [(''DATANADHI-API-KEY'', ApiKey c)],
      body = jsonBody, contentType = ''application/json''\<rparr>"

definition sendToServer ::
  "env \<Rightarrow> ServerConfig \<Rightarrow> logRecord \<Rightarrow> world \<Rightarrow> (bool \<times> error option) \<times> ServerConfig \<times> world" where
  "sendToServer env c rec w =
     (case json_Marshal_body env (Pipelines rec) (Payload rec) of
        Inl err \<Rightarrow>
          ((False, None), c, LogJson ''json_marshal_error'' [(''error'', AString (Error_msg err))] w)
      | Inr jsonBody \<Rightarrow>
          (let req = trigger_request c jsonBody;
               w1 = (tick w)\<lparr>posts := posts w @ [req]\<rparr>
           in case client_Post env (clock w) req of
                Inl err \<Rightarrow>
                  ((False, Some err), c,
                   LogJson ''trigger_post_error'' [(''error'', AString (Error_msg err))] w1)
              | Inr resp \<Rightarrow>
                  if StatusCode resp \<ge> 200 \<and> StatusCode resp < 300 then
                    ((True, None), logToFile c rec True [], w1)
                  else if StatusCode resp \<ge> 300 \<and> StatusCode resp \<le> 500 then
                    ((True, None),
                     logToFile c rec False
                       [(''response'', AString (Body resp)), (''responseCode'', AInt (StatusCode resp))],
                     LogJson ''trigger_client_error_final'' [(''status'', AInt (StatusCode resp))] w1)
                  else if StatusCode resp > 500 then
                    ((False, Some (Error (''server_error, status '' @ Sprintf_d (StatusCode resp)))), c,
                     LogJson ''trigger_server_error'' [(''status'', AInt (StatusCode resp))] w1)
                  else ((True, None), c, w1)))"


subsection \<open>The replay pass: FlushPebbleDB, ProcessPebble, PebbleIsEmpty\<close>

text \<open>
  \<^verbatim>\<open>func FlushPebbleDB(db *pebble.DB)\<close> (pebble.go). Flushing moves data to stable storage
  and does not change the entries of the store; its errors are only printed.
\<close>

definition FlushPebbleDB :: "pebble_db option \<Rightarrow> world \<Rightarrow> world" where
  "FlushPebbleDB db w =
     (case db of
        None \<Rightarrow> w
      | Some d \<Rightarrow>
          (let w1 = (case flush_fault d of
                       Some err \<Rightarrow> LogJson ''pebble_flush_error'' [(''error'', AString (Error_msg err))] w
                     | None \<Rightarrow> w)
           in case sync_fault d of
                Some err \<Rightarrow> LogJson ''pebble_wal_sync_error'' [(''error'', AString (Error_msg err))] w1
              | None \<Rightarrow> w1))"

text \<open>
  The scan loop of ProcessPebble, \<^verbatim>\<open>for iter.First(); iter.Valid(); iter.Next()\<close>, over the
  entries the iterator still has to visit. \<open>keys\<close> and \<open>count\<close> are the variables of the
  same name. The result is \<open>(keys, count, serverErr)\<close> when the loop is left, with the
  ServerConfig and the world as the loop leaves them.
\<close>

fun ProcessPebble_loop ::
  "env \<Rightarrow> ServerConfig \<Rightarrow> iterator \<Rightarrow> bytes list \<Rightarrow> int \<Rightarrow> world
     \<Rightarrow> (bytes list \<times> int \<times> error option) \<times> ServerConfig \<times> world" where
  "ProcessPebble_loop env c [] keys count w = ((keys, count, None), c, w)"
| "ProcessPebble_loop env c ((key, val) # rest) keys count w =
     (if ctx_Err env (clock w) then ((keys, count, None), c, tick w)
      else
        (case json_Unmarshal_rec env val of
           Inl err \<Rightarrow>
             ProcessPebble_loop env c rest keys count
               (LogJson ''pebble_read_error'' [(''error'', AString (Error_msg err))] (tick w))
         | Inr rec \<Rightarrow>
             (case sendToServer env c rec (tick w) of
                ((addKey, Some err), c', w') \<Rightarrow> ((keys, count, Some err), c', w')
              | ((addKey, None), c', w') \<Rightarrow>
                  if addKey then ProcessPebble_loop env c' rest (keys @ [key]) (count + 1) w'
                  else ProcessPebble_loop env c' rest keys count w')))"

declare ProcessPebble_loop.simps(2) [simp del]

text \<open>
  \<^verbatim>\<open>func (c *ServerConfig) ProcessPebble(ctx) error\<close> (pebble.go). The deferred
  \<^verbatim>\<open>FlushPebbleDB\<close> runs on every way out; \<^verbatim>\<open>c.Db.NewIter\<close> on a nil \<open>Db\<close> panics.
\<close>

definition ProcessPebble ::
  "env \<Rightarrow> ServerConfig \<Rightarrow> world \<Rightarrow> error option outcome \<times> ServerConfig \<times> world" where
  "ProcessPebble env c w =
     (let w0 = FlushPebbleDB (Db c) w in
      case Db c of
        None \<Rightarrow> (Panics, c, FlushPebbleDB (Db c) w0)
      | Some db \<Rightarrow>
          (case Db_NewIter db of
             Inl err \<Rightarrow> (Returns (Some err), c, FlushPebbleDB (Db c) w0)
           | Inr iter \<Rightarrow>
               (case ProcessPebble_loop env c iter [] 0 w0 of
                  ((keys, count, serverErr), c1, w1) \<Rightarrow>
                    if length keys > 0 then
                      (case deleteKeysBatch db keys of
                         (Some err, db') \<Rightarrow>
                           (let c2 = c1\<lparr>Db := Some db'\<rparr>;
                                w2 = LogJson ''pebble_delete_error'' [(''error'', AString (Error_msg err))] w1
                            in (Returns (Some err), c2, FlushPebbleDB (Db c2) w2))
                       | (None, db') \<Rightarrow>
                           (let c2 = c1\<lparr>Db := Some db'\<rparr>;
                                w2 = LogJson ''pebble_processed'' [(''processed_count'', AInt count)] w1
                            in (Returns serverErr, c2, FlushPebbleDB (Db c2) w2)))
                    else
                      (Returns serverErr, c1,
                       FlushPebbleDB (Db c1) (LogJson ''pebble_processed_none'' [] w1)))))"


subsection \<open>The accepting flag\<close>

text \<open>
  \<^verbatim>\<open>os.OpenFile(path, os.O_CREATE|os.O_EXCL, 0644)\<close>: fails, creating nothing, when the file
  cannot be created or when the path exists; otherwise it creates the file and returns a
  handle on it.
\<close>

definition os_OpenFile_excl :: "env \<Rightarrow> string \<Rightarrow> world \<Rightarrow> (error + string) \<times> world" where
  "os_OpenFile_excl env path w =
     (case os_OpenFile_fault env (clock w) path of
        Some err \<Rightarrow> (Inl err, tick w)
      | None \<Rightarrow>
          if path \<in> files w then (Inl (Error (''open '' @ path @ '': file exists'')), tick w)
          else (Inr path, (tick w)\<lparr>files := insert path (files w)\<rparr>))"

text \<open>\<^verbatim>\<open>func (c *ServerConfig) EnableAcceptingFlag() error\<close> (config.go).\<close>

definition EnableAcceptingFlag ::
  "env \<Rightarrow> ServerConfig \<Rightarrow> world \<Rightarrow> error option \<times> ServerConfig \<times> world" where
  "EnableAcceptingFlag env c w =
     (let path = acceptingFlagPath c in
      case os_OpenFile_excl env path w of
        (Inl err, w') \<Rightarrow> (Some err, c, w')
      | (Inr f, w') \<Rightarrow> (None, c\<lparr>AcceptingFlag := Some f\<rparr>, w'))"


subsection \<open>The control loop of main\<close>




subsection \<open>The order of the store\<close>

text \<open>
  The entries of a store are in strictly ascending key order: no key occurs twice, and an
  iterator visits the entries in key order.
\<close>

definition db_ordered :: "pebble_db \<Rightarrow> bool" where
  "db_ordered db = sorted_wrt (<) (map fst (entries db))"

subsection \<open>Example data\<close>

text \<open>A store that holds the given entries and whose calls all succeed.\<close>

definition healthy_db :: "(bytes \<times> bytes) list \<Rightarrow> pebble_db" where
  "healthy_db es =
     \<lparr>entries = es, set_fault = None, iter_fault = None, delete_fault = (\<lambda>k. None),
      commit_fault = None, flush_fault = None, sync_fault = None, read_fault = None\<rparr>"

text \<open>
  Surroundings for the examples. The JSON functions are stand-ins that are enough to run the
  code: the only document texts that parse are \<^verbatim>\<open>{}\<close> and \<^verbatim>\<open>null\<close>, a record is stored as its first pipeline
  tag, a stored value decodes unless it is empty, and the body of a request is the first pipeline
  tag. The remote server answers 503 to the body \<^verbatim>\<open>B\<close>, 404 to \<^verbatim>\<open>D\<close>, 100 to \<^verbatim>\<open>I\<close> and 200 to
  everything else; its health probe answers 200; the context is never cancelled; the clock and
  the random source stand still.
\<close>

definition example_env :: env where
  "example_env =
     \<lparr>json_Unmarshal_map =
        (\<lambda>data. if data = ''{}'' then Inr (Some []) else if data = ''null'' then Inr None
                else Inl (Error ''invalid character'')),
      json_Marshal_rec = (\<lambda>rec. concat (take 1 (Pipelines rec))),
      json_Unmarshal_rec =
        (\<lambda>val. if val = [] then Inl (Error ''unexpected end of JSON input'')
               else Inr \<lparr>Payload = Some [], Pipelines = [val], ReceivedAt = ''2023-11-14T22:13:20Z''\<rparr>),
      json_Marshal_body = (\<lambda>ps doc. Inr (concat (take 1 ps))),
      client_Post =
        (\<lambda>t req. Inr \<lparr>StatusCode = (if body req = ''B'' then 503 else if body req = ''D'' then 404
                                        else if body req = ''I'' then 100 else 200),
                        Body = ''reply''\<rparr>),
      client_Get = (\<lambda>t u. Inr \<lparr>StatusCode = 200, Body = ''ok''\<rparr>),
      ctx_Err = (\<lambda>t. False),
      time_UnixNano = (\<lambda>t. 1700000000000000000),
      time_Format = (\<lambda>n. ''2023-11-14T22:13:20Z''),
      rand_source = (\<lambda>t. 7),
      os_OpenFile_fault = (\<lambda>t path. None)\<rparr>"

definition example_config :: "pebble_db \<Rightarrow> ServerConfig" where
  "example_config db =
     \<lparr>ApiKey = ''secret'', ServerHost = ''http://server:5000'', Db = Some db,
      acceptingFlagPath = ''.datanadhi/agent-status.lock'', AcceptingFlag = None,
      successLog = Some [], failureLog = Some [],
      SocketPath = ''.datanadhi/data-nadhi-agent.sock'', dbPath = ''.datanadhi/pebble''\<rparr>"

definition example_world :: world where
  "example_world = \<lparr>stdout = [], posts = [], files = {}, clock = 0\<rparr>"

section \<open>Properties\<close>

subsection \<open>Decimal text\<close>

lemma digits_lt: "n < 10 \<Longrightarrow> digits n = [digit n]"
  by (subst digits.simps) simp

lemma digits_ge: "10 \<le> n \<Longrightarrow> digits n = digits (n div 10) @ [digit (n mod 10)]"
  by (subst digits.simps) simp

subsection \<open>The store keeps its order\<close>

lemma map_of_upsert_same: "map_of (upsert k v es) k = Some v"
  by (induction es) auto

lemma set_upsert: "set (map fst (upsert k v es)) = insert k (set (map fst es))"
proof (induction es)
  case Nil
  then show ?case by simp
next
  case (Cons e es)
  obtain k' v' where e: "e = (k', v')" by (cases e)
  from Cons.IH have "fst ` set (upsert k v es) = insert k (fst ` set es)" by simp
  with e show ?case by (simp add: insert_commute)
qed

lemma upsert_ordered:
  "sorted_wrt (<) (map fst es) \<Longrightarrow> sorted_wrt (<) (map fst (upsert k v es))"
proof (induction es)
  case Nil
  then show ?case by simp
next
  case (Cons e es)
  obtain k' v' where e: "e = (k', v')" by (cases e)
  from Cons.prems e have below: "\<forall>x \<in> set (map fst es). k' < x" and tl: "sorted_wrt (<) (map fst es)"
    by simp_all
  consider "k < k'" | "k = k'" | "k' < k" by (metis not_less_iff_gr_or_eq)
  then show ?case
  proof cases
    case 1
    with below tl e show ?thesis by (auto intro: less_trans)
  next
    case 2
    with below tl e show ?thesis by auto
  next
    case 3
    then have "\<not> k < k'" "k \<noteq> k'" by auto
    moreover have "\<forall>x \<in> set (map fst (upsert k v es)). k' < x"
      using below 3 by (simp only: set_upsert) auto
    ultimately show ?thesis using Cons.IH [OF tl] e by simp
  qed
qed

lemma Db_Set_ordered: "db_ordered db \<Longrightarrow> db_ordered (snd (Db_Set db k v))"
  by (cases "set_fault db") (simp_all add: Db_Set_def db_ordered_def upsert_ordered)

lemma filter_ordered:
  fixes es :: "(bytes \<times> bytes) list"
  shows "sorted_wrt (<) (map fst es) \<Longrightarrow> sorted_wrt (<) (map fst (filter P es))"
  by (induction es) auto



subsection \<open>The batch delete\<close>

lemma deleteKeysBatch_loop_Inr:
  "deleteKeysBatch_loop db b keys = Inr b' \<Longrightarrow> b' = b @ keys"
proof (induction keys arbitrary: b)
  case Nil
  then show ?case by simp
next
  case (Cons key keys)
  then show ?case
    by (cases "delete_fault db key") (simp_all add: Batch_Delete_def, fastforce)
qed

lemma deleteKeysBatch_cases:
  "deleteKeysBatch db keys = (None, db\<lparr>entries := filter (\<lambda>e. fst e \<notin> set keys) (entries db)\<rparr>)
   \<or> (\<exists>err. deleteKeysBatch db keys = (Some err, db))"
proof (cases "deleteKeysBatch_loop db (Db_NewBatch db) keys")
  case (Inl err)
  then show ?thesis by (simp add: deleteKeysBatch_def)
next
  case (Inr b)
  then have "b = keys"
    using deleteKeysBatch_loop_Inr [of db "Db_NewBatch db" keys b] by (simp add: Db_NewBatch_def)
  with Inr show ?thesis
    by (cases "commit_fault db") (simp_all add: deleteKeysBatch_def Batch_Commit_def)
qed

lemma deleteKeysBatch_ordered: "db_ordered db \<Longrightarrow> db_ordered (snd (deleteKeysBatch db keys))"
  using deleteKeysBatch_cases [of db keys] by (auto simp: db_ordered_def filter_ordered)

text \<open>
  C4. deleteKeysBatch over the keys \<open>keys\<close> either returns no error, and then the store holds
  exactly the entries it held whose key is not among \<open>keys\<close> (every one of the keys is gone,
  every other entry is kept), or it returns an error, and then the store is unchanged: none
  of the keys has been removed.
\<close>

theorem deleteKeysBatch_all_or_nothing:
  "(fst (deleteKeysBatch db keys) = None
      \<and> entries (snd (deleteKeysBatch db keys)) = filter (\<lambda>e. fst e \<notin> set keys) (entries db)
      \<and> set keys \<inter> fst ` set (entries (snd (deleteKeysBatch db keys))) = {})
   \<or> (fst (deleteKeysBatch db keys) \<noteq> None \<and> snd (deleteKeysBatch db keys) = db)"
  using deleteKeysBatch_cases [of db keys] by auto

theorem deleteKeysBatch_all_or_nothing_witness:
  "fst (deleteKeysBatch (healthy_db [(''1_1'', ''A''), (''2_2'', ''B''), (''3_3'', ''C'')]) [''1_1'', ''3_3'']) = None
   \<and> entries (snd (deleteKeysBatch (healthy_db [(''1_1'', ''A''), (''2_2'', ''B''), (''3_3'', ''C'')])
                       [''1_1'', ''3_3''])) = [(''2_2'', ''B'')]
   \<and> fst (deleteKeysBatch ((healthy_db [(''1_1'', ''A''), (''2_2'', ''B'')])\<lparr>commit_fault := Some (Error ''disk full'')\<rparr>)
            [''1_1'', ''2_2'']) = Some (Error ''disk full'')
   \<and> entries (snd (deleteKeysBatch ((healthy_db [(''1_1'', ''A''), (''2_2'', ''B'')])\<lparr>commit_fault := Some (Error ''disk full'')\<rparr>)
            [''1_1'', ''2_2''])) = [(''1_1'', ''A''), (''2_2'', ''B'')]"
  using deleteKeysBatch_all_or_nothing
          [of "healthy_db [(''1_1'', ''A''), (''2_2'', ''B''), (''3_3'', ''C'')]" "[''1_1'', ''3_3'']"]
        deleteKeysBatch_all_or_nothing
          [of "(healthy_db [(''1_1'', ''A''), (''2_2'', ''B'')])\<lparr>commit_fault := Some (Error ''disk full'')\<rparr>"
              "[''1_1'', ''2_2'']"]
  by (simp add: deleteKeysBatch_def healthy_db_def Db_NewBatch_def Batch_Delete_def Batch_Commit_def)

subsection \<open>Ingestion\<close>

lemma example_key: "SendLog_key 1700000000000000000 7 = ''1700000000000000000_7''"
  by (simp add: SendLog_key_def Sprintf_d_def digits_lt digits_ge digit_def)

text \<open>
  A request whose \<open>JsonData\<close> is \<^verbatim>\<open>null\<close>, which is not a key/value document but which
  \<^verbatim>\<open>json.Unmarshal\<close> takes without an error, leaving the map nil: the call answers
  \<^verbatim>\<open>stored\<close>, and the record stored has the nil payload, not the empty document. (Here the
  stored bytes show the payload of the record: \<^verbatim>\<open>null\<close> for nil, \<^verbatim>\<open>{}\<close> otherwise.)
\<close>

theorem SendLog_null_counterexample:
  "(let env = example_env\<lparr>json_Marshal_rec :=
                 \<lambda>rec. case Payload rec of None \<Rightarrow> ''null'' | Some m \<Rightarrow> ''{}''\<rparr>;
        r = SendLog env (example_config (healthy_db []))
              \<lparr>JsonData = ''null'', req_Pipelines = [''A'']\<rparr> example_world
    in json_Unmarshal_map env ''null'' = Inr None
       \<and> fst r = Returns \<lparr>Success = True, Message = ''stored''\<rparr>
       \<and> map_option entries (Db (fst (snd r))) = Some [(''1700000000000000000_7'', ''null'')])"
  by (simp add: example_env_def example_config_def example_world_def healthy_db_def
        SendLog_def Let_def Db_Set_def tick_def LogJson_def rand_Intn_def example_key)

text \<open>
  C5, as the code has it. \<open>stored out\<close> is the value SendLog writes for the payload \<open>out\<close>,
  \<open>key\<close> the key it generates.
  \<^item> When \<^verbatim>\<open>json.Unmarshal\<close> rejects the \<open>JsonData\<close> with an error, SendLog does exactly what
    it does for data that decodes to the empty document: the record it writes has the empty
    document as payload, and the decode error changes nothing else. When the write to the
    store succeeds the record is stored under the key and the call answers \<^verbatim>\<open>stored\<close>; the
    only rejection is that of a failed write, which answers \<^verbatim>\<open>Db write failed\<close>.
  \<^item> When \<^verbatim>\<open>json.Unmarshal\<close> returns no error, the payload is what it left in the map: for
    \<^verbatim>\<open>null\<close> that is the nil map, and nothing is substituted.
\<close>

theorem SendLog_decode_error:
  assumes "Db c = Some db"
    and "key = SendLog_key (time_UnixNano env (Suc (clock w))) (rand_Intn env (Suc (Suc (clock w))) 1000)"
    and "stored = (\<lambda>out. json_Marshal_rec env
                  \<lparr>Payload = out, Pipelines = req_Pipelines req,
                   ReceivedAt = time_Format env (time_UnixNano env (clock w))\<rparr>)"
  shows "(\<forall>err. json_Unmarshal_map env (JsonData req) = Inl err \<longrightarrow>
            SendLog env c req w = SendLog (env\<lparr>json_Unmarshal_map := \<lambda>d. Inr (Some [])\<rparr>) c req w
            \<and> (case set_fault db of
                  None \<Rightarrow>
                    fst (SendLog env c req w) = Returns \<lparr>Success = True, Message = ''stored''\<rparr>
                    \<and> Db (fst (snd (SendLog env c req w)))
                        = Some (db\<lparr>entries := upsert key (stored (Some [])) (entries db)\<rparr>)
                    \<and> map_of (upsert key (stored (Some [])) (entries db)) key = Some (stored (Some []))
                | Some werr \<Rightarrow>
                    fst (SendLog env c req w) = Returns \<lparr>Success = False, Message = ''Db write failed''\<rparr>
                    \<and> Db (fst (snd (SendLog env c req w))) = Some db))
     \<and> (\<forall>out. json_Unmarshal_map env (JsonData req) = Inr out \<longrightarrow>
            (case set_fault db of
               None \<Rightarrow>
                 fst (SendLog env c req w) = Returns \<lparr>Success = True, Message = ''stored''\<rparr>
                 \<and> Db (fst (snd (SendLog env c req w)))
                     = Some (db\<lparr>entries := upsert key (stored out) (entries db)\<rparr>)
                 \<and> map_of (upsert key (stored out) (entries db)) key = Some (stored out)
             | Some werr \<Rightarrow>
                 fst (SendLog env c req w) = Returns \<lparr>Success = False, Message = ''Db write failed''\<rparr>
                 \<and> Db (fst (snd (SendLog env c req w))) = Some db))"
  using assms
  by (cases "set_fault db")
     (simp_all add: SendLog_def Let_def Db_Set_def tick_def rand_Intn_def map_of_upsert_same)

theorem SendLog_decode_error_witness:
  "json_Unmarshal_map example_env ''not json'' = Inl (Error ''invalid character'')
   \<and> fst (SendLog example_env (example_config (healthy_db []))
            \<lparr>JsonData = ''not json'', req_Pipelines = [''A'']\<rparr> example_world)
       = Returns \<lparr>Success = True, Message = ''stored''\<rparr>
   \<and> map_option entries (Db (fst (snd (SendLog example_env (example_config (healthy_db []))
            \<lparr>JsonData = ''not json'', req_Pipelines = [''A'']\<rparr> example_world))))
       = Some [(''1700000000000000000_7'', ''A'')]"
  using SendLog_decode_error
          [where env = example_env and req = "\<lparr>JsonData = ''not json'', req_Pipelines = [''A'']\<rparr>"
             and c = "example_config (healthy_db [])" and db = "healthy_db []"
             and key = "''1700000000000000000_7''" and w = example_world
             and stored = "\<lambda>out. ''A''"]
  by (simp add: example_env_def example_config_def example_world_def healthy_db_def
        SendLog_def Let_def Db_Set_def tick_def LogJson_def rand_Intn_def example_key)

text \<open>
  C3. Two SendLog calls that read the same value from the clock and draw the same number
  from \<^verbatim>\<open>rand.Intn(1000)\<close> generate the same key. Both calls answer \<open>Success = True\<close>, and
  the store, which held the first record after the first call, holds only the second record
  after the second: the first record is overwritten.
\<close>

theorem SendLog_key_collision:
  "(case SendLog example_env (example_config (healthy_db []))
             \<lparr>JsonData = ''{}'', req_Pipelines = [''A'']\<rparr> example_world of
      (r1, c1, w1) \<Rightarrow>
        (case SendLog example_env c1 \<lparr>JsonData = ''{}'', req_Pipelines = [''B'']\<rparr> w1 of
           (r2, c2, w2) \<Rightarrow>
             r1 = Returns \<lparr>Success = True, Message = ''stored''\<rparr>
             \<and> r2 = Returns \<lparr>Success = True, Message = ''stored''\<rparr>
             \<and> map_option entries (Db c1) = Some [(''1700000000000000000_7'', ''A'')]
             \<and> map_option entries (Db c2) = Some [(''1700000000000000000_7'', ''B'')]))"
  by (simp add: SendLog_def Let_def example_env_def example_config_def healthy_db_def Db_Set_def
        example_world_def tick_def rand_Intn_def LogJson_def example_key)

subsection \<open>Delivery of one record\<close>

lemma logToFile_Db [simp]: "Db (logToFile c rec b ex) = Db c"
  by (simp add: logToFile_def Let_def)


text \<open>
  C10. When the body of a record marshals, the POST returns a response and the status of the
  response is below 200, sendToServer returns \<open>true\<close> and no error, and the ServerConfig is
  unchanged: no line is written to the success log or to the failure log. Nothing is printed
  either; the world changes only by the request sent.
\<close>

theorem sendToServer_informational:
  assumes "json_Marshal_body env (Pipelines rec) (Payload rec) = Inr jsonBody"
    and "client_Post env (clock w) (trigger_request c jsonBody) = Inr resp"
    and "StatusCode resp < 200"
  shows "sendToServer env c rec w =
           ((True, None), c, (tick w)\<lparr>posts := posts w @ [trigger_request c jsonBody]\<rparr>)
         \<and> successLog (fst (snd (sendToServer env c rec w))) = successLog c
         \<and> failureLog (fst (snd (sendToServer env c rec w))) = failureLog c"
  using assms by (simp add: sendToServer_def Let_def)

theorem sendToServer_informational_witness:
  "client_Post example_env 0 (trigger_request (example_config (healthy_db [])) ''I'')
     = Inr \<lparr>StatusCode = 100, Body = ''reply''\<rparr>
   \<and> fst (sendToServer example_env (example_config (healthy_db []))
          \<lparr>Payload = Some [], Pipelines = [''I''], ReceivedAt = ''''\<rparr> example_world) = (True, None)
   \<and> successLog (fst (snd (sendToServer example_env (example_config (healthy_db []))
          \<lparr>Payload = Some [], Pipelines = [''I''], ReceivedAt = ''''\<rparr> example_world))) = Some []
   \<and> failureLog (fst (snd (sendToServer example_env (example_config (healthy_db []))
          \<lparr>Payload = Some [], Pipelines = [''I''], ReceivedAt = ''''\<rparr> example_world))) = Some []"
  using sendToServer_informational
          [of example_env "\<lparr>Payload = Some [], Pipelines = [''I''], ReceivedAt = ''''\<rparr>" "''I''"
              example_world "example_config (healthy_db [])" "\<lparr>StatusCode = 100, Body = ''reply''\<rparr>"]
  by (simp add: example_env_def example_config_def example_world_def trigger_request_def)

subsection \<open>The scan loop, one entry at a time\<close>

lemma loop_cancel:
  "ctx_Err env (clock w) \<Longrightarrow>
   ProcessPebble_loop env c ((key, val) # rest) keys count w = ((keys, count, None), c, tick w)"
  by (simp add: ProcessPebble_loop.simps)

lemma loop_skip:
  "\<not> ctx_Err env (clock w) \<Longrightarrow> json_Unmarshal_rec env val = Inl err \<Longrightarrow>
   ProcessPebble_loop env c ((key, val) # rest) keys count w =
   ProcessPebble_loop env c rest keys count
     (LogJson ''pebble_read_error'' [(''error'', AString (Error_msg err))] (tick w))"
  by (simp add: ProcessPebble_loop.simps)

lemma loop_abort:
  "\<not> ctx_Err env (clock w) \<Longrightarrow> json_Unmarshal_rec env val = Inr rec \<Longrightarrow>
   sendToServer env c rec (tick w) = ((addKey, Some err), c', w') \<Longrightarrow>
   ProcessPebble_loop env c ((key, val) # rest) keys count w = ((keys, count, Some err), c', w')"
  by (simp add: ProcessPebble_loop.simps)

lemma loop_mark:
  "\<not> ctx_Err env (clock w) \<Longrightarrow> json_Unmarshal_rec env val = Inr rec \<Longrightarrow>
   sendToServer env c rec (tick w) = ((True, None), c', w') \<Longrightarrow>
   ProcessPebble_loop env c ((key, val) # rest) keys count w =
   ProcessPebble_loop env c' rest (keys @ [key]) (count + 1) w'"
  by (simp add: ProcessPebble_loop.simps)

lemma loop_keep:
  "\<not> ctx_Err env (clock w) \<Longrightarrow> json_Unmarshal_rec env val = Inr rec \<Longrightarrow>
   sendToServer env c rec (tick w) = ((False, None), c', w') \<Longrightarrow>
   ProcessPebble_loop env c ((key, val) # rest) keys count w =
   ProcessPebble_loop env c' rest keys count w'"
  by (simp add: ProcessPebble_loop.simps)

text \<open>The five ways through one iteration of the loop.\<close>

lemma loop_cases [consumes 0, case_names cancel skip abort mark keep]:
  assumes "ctx_Err env (clock w) \<Longrightarrow> P"
    and "\<And>err. \<not> ctx_Err env (clock w) \<Longrightarrow> json_Unmarshal_rec env val = Inl err \<Longrightarrow> P"
    and "\<And>rec addKey err c' w'. \<not> ctx_Err env (clock w) \<Longrightarrow> json_Unmarshal_rec env val = Inr rec \<Longrightarrow>
           sendToServer env c rec (tick w) = ((addKey, Some err), c', w') \<Longrightarrow> P"
    and "\<And>rec c' w'. \<not> ctx_Err env (clock w) \<Longrightarrow> json_Unmarshal_rec env val = Inr rec \<Longrightarrow>
           sendToServer env c rec (tick w) = ((True, None), c', w') \<Longrightarrow> P"
    and "\<And>rec c' w'. \<not> ctx_Err env (clock w) \<Longrightarrow> json_Unmarshal_rec env val = Inr rec \<Longrightarrow>
           sendToServer env c rec (tick w) = ((False, None), c', w') \<Longrightarrow> P"
  shows P
proof (cases "ctx_Err env (clock w)")
  case True
  then show ?thesis by (rule assms(1))
next
  case nc: False
  show ?thesis
  proof (cases "json_Unmarshal_rec env val")
    case (Inl err)
    with nc show ?thesis by (rule assms(2))
  next
    case (Inr rec)
    obtain addKey e c' w' where s: "sendToServer env c rec (tick w) = ((addKey, e), c', w')"
      by (metis prod.exhaust)
    show ?thesis
    proof (cases e)
      case None
      with s nc Inr show ?thesis by (cases addKey) (auto intro: assms(4) assms(5))
    next
      case (Some err)
      with s nc Inr show ?thesis by (auto intro: assms(3))
    qed
  qed
qed


text \<open>
  The keys the loop has marked when it is left are the keys it started with, followed by
  keys of entries of the iterator whose value decodes.
\<close>

lemma loop_marked:
  "ProcessPebble_loop env c it keys count w = ((keys', count', se), c', w') \<Longrightarrow>
   \<exists>ks. keys' = keys @ ks
      \<and> (\<forall>k \<in> set ks. \<exists>v rec. (k, v) \<in> set it \<and> json_Unmarshal_rec env v = Inr rec)"
proof (induction it arbitrary: c keys count w)
  case Nil
  then show ?case by simp
next
  case (Cons e rest)
  obtain key val where e: "e = (key, val)" by (cases e)
  have widen: "\<exists>ks. keys' = keys @ ks
      \<and> (\<forall>k \<in> set ks. \<exists>v rec. (k, v) \<in> set (e # rest) \<and> json_Unmarshal_rec env v = Inr rec)"
    if "\<exists>ks. keys' = keys @ ks
      \<and> (\<forall>k \<in> set ks. \<exists>v rec. (k, v) \<in> set rest \<and> json_Unmarshal_rec env v = Inr rec)"
  proof -
    from that obtain ks where ks: "keys' = keys @ ks"
      "\<forall>k \<in> set ks. \<exists>v rec. (k, v) \<in> set rest \<and> json_Unmarshal_rec env v = Inr rec"
      by blast
    from ks(2) have "\<forall>k \<in> set ks. \<exists>v rec. (k, v) \<in> set (e # rest) \<and> json_Unmarshal_rec env v = Inr rec"
      by (meson list.set_intros(2))
    with ks(1) show ?thesis by blast
  qed
  show ?case
  proof (cases rule: loop_cases [where env = env and w = w and val = val and c = c])
    case cancel
    with Cons.prems e show ?thesis by (simp add: loop_cancel)
  next
    case (skip err)
    with Cons.prems e have "ProcessPebble_loop env c rest keys count
        (LogJson ''pebble_read_error'' [(''error'', AString (Error_msg err))] (tick w))
        = ((keys', count', se), c', w')"
      by (simp add: loop_skip)
    from widen [OF Cons.IH [OF this]] show ?thesis .
  next
    case (abort rec addKey err c1 w1)
    with Cons.prems e show ?thesis by (simp add: loop_abort)
  next
    case (mark rec c1 w1)
    with Cons.prems e have "ProcessPebble_loop env c1 rest (keys @ [key]) (count + 1) w1
        = ((keys', count', se), c', w')"
      by (simp add: loop_mark)
    from Cons.IH [OF this] obtain ks where ks: "keys' = (keys @ [key]) @ ks"
      "\<forall>k \<in> set ks. \<exists>v rec. (k, v) \<in> set rest \<and> json_Unmarshal_rec env v = Inr rec"
      by blast
    have 1: "keys' = keys @ (key # ks)" using ks(1) by simp
    have "\<exists>v rec. (key, v) \<in> set (e # rest) \<and> json_Unmarshal_rec env v = Inr rec"
      using mark(2) e by auto
    moreover from ks(2) have "\<forall>k \<in> set ks. \<exists>v rec. (k, v) \<in> set (e # rest) \<and> json_Unmarshal_rec env v = Inr rec"
      by (meson list.set_intros(2))
    ultimately have 2: "\<forall>k \<in> set (key # ks). \<exists>v rec. (k, v) \<in> set (e # rest) \<and> json_Unmarshal_rec env v = Inr rec"
      by simp
    from 1 2 show ?thesis by blast
  next
    case (keep rec c1 w1)
    with Cons.prems e have "ProcessPebble_loop env c1 rest keys count w1
        = ((keys', count', se), c', w')"
      by (simp add: loop_keep)
    from widen [OF Cons.IH [OF this]] show ?thesis .
  qed
qed

lemma loop_keys_prefix:
  "\<exists>ks. fst (fst (ProcessPebble_loop env c it keys count w)) = keys @ ks"
proof -
  obtain keys' count' se c' w' where
    "ProcessPebble_loop env c it keys count w = ((keys', count', se), c', w')"
    by (metis prod.exhaust)
  from loop_marked [OF this] this show ?thesis by auto
qed

lemma clock_tick [simp]: "clock (tick w) = Suc (clock w)"
  by (simp add: tick_def)

lemma clock_LogJson [simp]: "clock (LogJson ev fl w) = clock w"
  by (simp add: LogJson_def)

lemma posts_tick [simp]: "posts (tick w) = posts w"
  by (simp add: tick_def)

lemma posts_LogJson [simp]: "posts (LogJson ev fl w) = posts w"
  by (simp add: LogJson_def)







subsection \<open>The classification of a delivery\<close>

text \<open>
  C1. The scan loop is at an entry \<open>(key, val)\<close>, the context is not cancelled, the value
  decodes to \<open>rec\<close>, its body marshals, and both outcome logs are open. Then, by the outcome
  of the POST:
  \<^item> a response with a status in [200, 299]: one line, holding the record, is appended to the
    success log, the failure log is unchanged, and the loop goes on with \<open>key\<close> appended to
    the marked keys, so \<open>key\<close> is among the keys the loop hands to the batch delete;
  \<^item> a response with a status in [300, 500]: one line, holding the record, the response body
    and the status, is appended to the failure log, the success log is unchanged, and the
    loop goes on with \<open>key\<close> appended to the marked keys;
  \<^item> a response with a status above 500, or an error of the POST itself: the loop is left
    at once with that error, the marked keys are the ones marked before (\<open>key\<close> is not
    added) and no log line is written.
\<close>

theorem ProcessPebble_loop_classification:
  assumes nc: "\<not> ctx_Err env (clock w)"
    and dec: "json_Unmarshal_rec env val = Inr rec"
    and mar: "json_Marshal_body env (Pipelines rec) (Payload rec) = Inr jsonBody"
    and sl: "successLog c = Some sl" and fl: "failureLog c = Some fl"
    and w1: "w1 = (tick (tick w))\<lparr>posts := posts w @ [trigger_request c jsonBody]\<rparr>"
  shows
    "(\<forall>resp. client_Post env (Suc (clock w)) (trigger_request c jsonBody) = Inr resp
          \<and> 200 \<le> StatusCode resp \<and> StatusCode resp \<le> 299 \<longrightarrow>
        ProcessPebble_loop env c ((key, val) # rest) keys count w
          = ProcessPebble_loop env
              (c\<lparr>successLog := Some (sl @ [\<lparr>log_data = rec, log_context = []\<rparr>])\<rparr>)
              rest (keys @ [key]) (count + 1) w1
        \<and> key \<in> set (fst (fst (ProcessPebble_loop env c ((key, val) # rest) keys count w))))
     \<and> (\<forall>resp. client_Post env (Suc (clock w)) (trigger_request c jsonBody) = Inr resp
          \<and> 300 \<le> StatusCode resp \<and> StatusCode resp \<le> 500 \<longrightarrow>
        ProcessPebble_loop env c ((key, val) # rest) keys count w
          = ProcessPebble_loop env
              (c\<lparr>failureLog := Some (fl @ [\<lparr>log_data = rec,
                   log_context = [(''response'', AString (Body resp)),
                                  (''responseCode'', AInt (StatusCode resp))]\<rparr>])\<rparr>)
              rest (keys @ [key]) (count + 1)
              (LogJson ''trigger_client_error_final'' [(''status'', AInt (StatusCode resp))] w1)
        \<and> key \<in> set (fst (fst (ProcessPebble_loop env c ((key, val) # rest) keys count w))))
     \<and> (\<forall>resp. client_Post env (Suc (clock w)) (trigger_request c jsonBody) = Inr resp
          \<and> 500 < StatusCode resp \<longrightarrow>
        ProcessPebble_loop env c ((key, val) # rest) keys count w
          = ((keys, count, Some (Error (''server_error, status '' @ Sprintf_d (StatusCode resp)))), c,
             LogJson ''trigger_server_error'' [(''status'', AInt (StatusCode resp))] w1))
     \<and> (\<forall>err. client_Post env (Suc (clock w)) (trigger_request c jsonBody) = Inl err \<longrightarrow>
        ProcessPebble_loop env c ((key, val) # rest) keys count w
          = ((keys, count, Some err), c,
             LogJson ''trigger_post_error'' [(''error'', AString (Error_msg err))] w1))"
proof (intro conjI allI impI)
  fix resp
  assume a: "client_Post env (Suc (clock w)) (trigger_request c jsonBody) = Inr resp
          \<and> 200 \<le> StatusCode resp \<and> StatusCode resp \<le> 299"
  then have s: "sendToServer env c rec (tick w)
      = ((True, None), c\<lparr>successLog := Some (sl @ [\<lparr>log_data = rec, log_context = []\<rparr>])\<rparr>, w1)"
    using mar sl w1 by (simp add: sendToServer_def Let_def tick_def logToFile_def)
  show eq: "ProcessPebble_loop env c ((key, val) # rest) keys count w
          = ProcessPebble_loop env
              (c\<lparr>successLog := Some (sl @ [\<lparr>log_data = rec, log_context = []\<rparr>])\<rparr>)
              rest (keys @ [key]) (count + 1) w1"
    using loop_mark [OF nc dec s] .
  show "key \<in> set (fst (fst (ProcessPebble_loop env c ((key, val) # rest) keys count w)))"
    using loop_keys_prefix [of env "c\<lparr>successLog := Some (sl @ [\<lparr>log_data = rec, log_context = []\<rparr>])\<rparr>"
        rest "keys @ [key]" "count + 1" w1]
    by (auto simp: eq)
next
  fix resp
  assume a: "client_Post env (Suc (clock w)) (trigger_request c jsonBody) = Inr resp
          \<and> 300 \<le> StatusCode resp \<and> StatusCode resp \<le> 500"
  let ?c = "c\<lparr>failureLog := Some (fl @ [\<lparr>log_data = rec,
                   log_context = [(''response'', AString (Body resp)),
                                  (''responseCode'', AInt (StatusCode resp))]\<rparr>])\<rparr>"
  let ?w = "LogJson ''trigger_client_error_final'' [(''status'', AInt (StatusCode resp))] w1"
  from a have s: "sendToServer env c rec (tick w) = ((True, None), ?c, ?w)"
    using mar fl w1 by (simp add: sendToServer_def Let_def tick_def logToFile_def)
  show eq: "ProcessPebble_loop env c ((key, val) # rest) keys count w
          = ProcessPebble_loop env ?c rest (keys @ [key]) (count + 1) ?w"
    using loop_mark [OF nc dec s] .
  show "key \<in> set (fst (fst (ProcessPebble_loop env c ((key, val) # rest) keys count w)))"
    using loop_keys_prefix [of env ?c rest "keys @ [key]" "count + 1" ?w]
    by (auto simp: eq)
next
  fix resp
  assume a: "client_Post env (Suc (clock w)) (trigger_request c jsonBody) = Inr resp
          \<and> 500 < StatusCode resp"
  then have s: "sendToServer env c rec (tick w)
      = ((False, Some (Error (''server_error, status '' @ Sprintf_d (StatusCode resp)))), c,
         LogJson ''trigger_server_error'' [(''status'', AInt (StatusCode resp))] w1)"
    using mar w1 by (simp add: sendToServer_def Let_def tick_def)
  show "ProcessPebble_loop env c ((key, val) # rest) keys count w
          = ((keys, count, Some (Error (''server_error, status '' @ Sprintf_d (StatusCode resp)))), c,
             LogJson ''trigger_server_error'' [(''status'', AInt (StatusCode resp))] w1)"
    using loop_abort [OF nc dec s] .
next
  fix err
  assume a: "client_Post env (Suc (clock w)) (trigger_request c jsonBody) = Inl err"
  then have s: "sendToServer env c rec (tick w)
      = ((False, Some err), c, LogJson ''trigger_post_error'' [(''error'', AString (Error_msg err))] w1)"
    using mar w1 by (simp add: sendToServer_def Let_def tick_def)
  show "ProcessPebble_loop env c ((key, val) # rest) keys count w
          = ((keys, count, Some err), c,
             LogJson ''trigger_post_error'' [(''error'', AString (Error_msg err))] w1)"
    using loop_abort [OF nc dec s] .
qed


text \<open>Unfolding the model on the example data.\<close>

lemmas example_defs =
  example_env_def example_config_def example_world_def healthy_db_def
  ProcessPebble_def ProcessPebble_loop.simps(2) sendToServer_def logToFile_def trigger_request_def
  FlushPebbleDB_def Db_NewIter_def deleteKeysBatch_def Db_NewBatch_def Batch_Delete_def
  Batch_Commit_def LogJson_def tick_def Let_def Sprintf_d_def digits_lt digits_ge digit_def

theorem ProcessPebble_loop_classification_witness:
  "(let r = ProcessPebble_loop example_env (example_config (healthy_db []))
              [(''1_1'', ''A'')] [] 0 example_world
    in fst r = ([''1_1''], 1, None)
       \<and> successLog (fst (snd r))
           = Some [\<lparr>log_data = \<lparr>Payload = Some [], Pipelines = [''A''], ReceivedAt = ''2023-11-14T22:13:20Z''\<rparr>,
                     log_context = []\<rparr>]
       \<and> failureLog (fst (snd r)) = Some [])
   \<and> (let r = ProcessPebble_loop example_env (example_config (healthy_db []))
              [(''4_4'', ''D'')] [] 0 example_world
    in fst r = ([''4_4''], 1, None)
       \<and> successLog (fst (snd r)) = Some []
       \<and> failureLog (fst (snd r))
           = Some [\<lparr>log_data = \<lparr>Payload = Some [], Pipelines = [''D''], ReceivedAt = ''2023-11-14T22:13:20Z''\<rparr>,
                     log_context = [(''response'', AString ''reply''), (''responseCode'', AInt 404)]\<rparr>])
   \<and> (let r = ProcessPebble_loop example_env (example_config (healthy_db []))
              [(''2_2'', ''B''), (''3_3'', ''C'')] [] 0 example_world
    in fst r = ([], 0, Some (Error ''server_error, status 503''))
       \<and> successLog (fst (snd r)) = Some [] \<and> failureLog (fst (snd r)) = Some [])
   \<and> (let r = ProcessPebble_loop
              (example_env\<lparr>client_Post := \<lambda>t req. Inl (Error ''connection refused'')\<rparr>)
              (example_config (healthy_db [])) [(''1_1'', ''A''), (''3_3'', ''C'')] [] 0 example_world
    in fst r = ([], 0, Some (Error ''connection refused''))
       \<and> successLog (fst (snd r)) = Some [] \<and> failureLog (fst (snd r)) = Some [])"
  using ProcessPebble_loop_classification
          [where env = example_env and w = example_world and val = "''A''"
             and rec = "\<lparr>Payload = Some [], Pipelines = [''A''], ReceivedAt = ''2023-11-14T22:13:20Z''\<rparr>"
             and jsonBody = "''A''" and c = "example_config (healthy_db [])"
             and sl = "[]" and fl = "[]"
             and ?w1.0 = "(tick (tick example_world))
                     \<lparr>posts := posts example_world @ [trigger_request (example_config (healthy_db [])) ''A'']\<rparr>"
             and key = "''1_1''" and rest = "[]" and keys = "[]" and count = 0]
        ProcessPebble_loop_classification
          [where env = example_env and w = example_world and val = "''D''"
             and rec = "\<lparr>Payload = Some [], Pipelines = [''D''], ReceivedAt = ''2023-11-14T22:13:20Z''\<rparr>"
             and jsonBody = "''D''" and c = "example_config (healthy_db [])"
             and sl = "[]" and fl = "[]"
             and ?w1.0 = "(tick (tick example_world))
                     \<lparr>posts := posts example_world @ [trigger_request (example_config (healthy_db [])) ''D'']\<rparr>"
             and key = "''4_4''" and rest = "[]" and keys = "[]" and count = 0]
        ProcessPebble_loop_classification
          [where env = example_env and w = example_world and val = "''B''"
             and rec = "\<lparr>Payload = Some [], Pipelines = [''B''], ReceivedAt = ''2023-11-14T22:13:20Z''\<rparr>"
             and jsonBody = "''B''" and c = "example_config (healthy_db [])"
             and sl = "[]" and fl = "[]"
             and ?w1.0 = "(tick (tick example_world))
                     \<lparr>posts := posts example_world @ [trigger_request (example_config (healthy_db [])) ''B'']\<rparr>"
             and key = "''2_2''" and rest = "[(''3_3'', ''C'')]" and keys = "[]" and count = 0]
        ProcessPebble_loop_classification
          [where env = "example_env\<lparr>client_Post := \<lambda>t req. Inl (Error ''connection refused'')\<rparr>"
             and w = example_world and val = "''A''"
             and rec = "\<lparr>Payload = Some [], Pipelines = [''A''], ReceivedAt = ''2023-11-14T22:13:20Z''\<rparr>"
             and jsonBody = "''A''" and c = "example_config (healthy_db [])"
             and sl = "[]" and fl = "[]"
             and ?w1.0 = "(tick (tick example_world))
                     \<lparr>posts := posts example_world @ [trigger_request (example_config (healthy_db [])) ''A'']\<rparr>"
             and key = "''1_1''" and rest = "[(''3_3'', ''C'')]" and keys = "[]" and count = 0]
  by (simp add: example_defs)

subsection \<open>One replay pass\<close>

lemma FlushPebbleDB_posts [simp]: "posts (FlushPebbleDB d w) = posts w"
  by (auto simp: FlushPebbleDB_def LogJson_def Let_def split: option.splits)

lemma FlushPebbleDB_clock [simp]: "clock (FlushPebbleDB d w) = clock w"
  by (auto simp: FlushPebbleDB_def LogJson_def Let_def split: option.splits)











subsection \<open>Entries that do not decode\<close>









subsection \<open>The accepting flag\<close>

lemma EnableAcceptingFlag_cases:
  "EnableAcceptingFlag env c w =
     (if os_OpenFile_fault env (clock w) (acceptingFlagPath c) = None \<and> acceptingFlagPath c \<notin> files w
      then (None, c\<lparr>AcceptingFlag := Some (acceptingFlagPath c)\<rparr>,
            (tick w)\<lparr>files := insert (acceptingFlagPath c) (files w)\<rparr>)
      else (Some (case os_OpenFile_fault env (clock w) (acceptingFlagPath c) of
                    Some err \<Rightarrow> err
                  | None \<Rightarrow> Error (''open '' @ acceptingFlagPath c @ '': file exists'')),
            c, tick w))"
  by (simp add: EnableAcceptingFlag_def os_OpenFile_excl_def Let_def split: option.splits)

lemma files_tick [simp]: "files (tick w) = files w"
  by (simp add: tick_def)

text \<open>
  A ServerConfig whose flag file already exists (left by an earlier run, or held by another
  agent on the same base directory): the first attempt to acquire the flag fails.
\<close>

theorem EnableAcceptingFlag_held_counterexample:
  "fst (EnableAcceptingFlag example_env (example_config (healthy_db []))
          (example_world\<lparr>files := {''.datanadhi/agent-status.lock''}\<rparr>))
     = Some (Error ''open .datanadhi/agent-status.lock: file exists'')"
  by (simp add: EnableAcceptingFlag_cases example_env_def example_config_def example_world_def)

text \<open>
  C8, as the code has it. Two successive calls of EnableAcceptingFlag with no
  DisableAcceptingFlag between them.
  \<^item> The first succeeds exactly when the flag file does not exist and nothing else keeps
    \<^verbatim>\<open>os.OpenFile\<close> from creating it; it fails when the flag file exists. When it succeeds
    the ServerConfig holds the handle and the flag file exists; when it fails the
    ServerConfig and the files are as before.
  \<^item> The second fails with an error, and changes neither the ServerConfig nor the files,
    whenever the first succeeded or the flag file existed before the first.
  \<^item> No call of EnableAcceptingFlag, of any ServerConfig with that flag path and in any
    surroundings, succeeds while the flag file exists: the flag is acquired at most once
    per base directory until it is released.
\<close>

theorem EnableAcceptingFlag_twice:
  assumes "EnableAcceptingFlag env c w = (e1, c1, w1)"
    and "EnableAcceptingFlag env c1 w1 = (e2, c2, w2)"
  shows "(e1 = None \<longleftrightarrow>
            acceptingFlagPath c \<notin> files w \<and> os_OpenFile_fault env (clock w) (acceptingFlagPath c) = None)
     \<and> (e1 = None \<longrightarrow>
            AcceptingFlag c1 = Some (acceptingFlagPath c)
            \<and> files w1 = insert (acceptingFlagPath c) (files w))
     \<and> (e1 \<noteq> None \<longrightarrow> c1 = c \<and> files w1 = files w)
     \<and> (e1 = None \<or> acceptingFlagPath c \<in> files w \<longrightarrow>
            e2 \<noteq> None \<and> c2 = c1 \<and> files w2 = files w1)
     \<and> (acceptingFlagPath d \<in> files w3 \<longrightarrow> fst (EnableAcceptingFlag env3 d w3) \<noteq> None)"
  using assms by (auto simp: EnableAcceptingFlag_cases split: if_splits)

theorem EnableAcceptingFlag_twice_witness:
  "(let r1 = EnableAcceptingFlag example_env (example_config (healthy_db [])) example_world;
        r2 = EnableAcceptingFlag example_env (fst (snd r1)) (snd (snd r1))
    in acceptingFlagPath (example_config (healthy_db [])) \<notin> files example_world
       \<and> fst r1 = None
       \<and> AcceptingFlag (fst (snd r1)) = Some ''.datanadhi/agent-status.lock''
       \<and> files (snd (snd r1)) = {''.datanadhi/agent-status.lock''}
       \<and> fst r2 = Some (Error ''open .datanadhi/agent-status.lock: file exists'')
       \<and> fst (snd r2) = fst (snd r1)
       \<and> files (snd (snd r2)) = files (snd (snd r1)))"
  using EnableAcceptingFlag_twice
          [where env = example_env and c = "example_config (healthy_db [])" and w = example_world
             and ?e1.0 = "fst (EnableAcceptingFlag example_env (example_config (healthy_db [])) example_world)"
             and ?c1.0 = "fst (snd (EnableAcceptingFlag example_env (example_config (healthy_db [])) example_world))"
             and ?w1.0 = "snd (snd (EnableAcceptingFlag example_env (example_config (healthy_db [])) example_world))"
             and ?e2.0 = "fst (EnableAcceptingFlag example_env
                   (fst (snd (EnableAcceptingFlag example_env (example_config (healthy_db [])) example_world)))
                   (snd (snd (EnableAcceptingFlag example_env (example_config (healthy_db [])) example_world))))"
             and ?c2.0 = "fst (snd (EnableAcceptingFlag example_env
                   (fst (snd (EnableAcceptingFlag example_env (example_config (healthy_db [])) example_world)))
                   (snd (snd (EnableAcceptingFlag example_env (example_config (healthy_db [])) example_world)))))"
             and ?w2.0 = "snd (snd (EnableAcceptingFlag example_env
                   (fst (snd (EnableAcceptingFlag example_env (example_config (healthy_db [])) example_world)))
                   (snd (snd (EnableAcceptingFlag example_env (example_config (healthy_db [])) example_world)))))"
             and d = "example_config (healthy_db [])"
             and ?w3.0 = "example_world\<lparr>files := {''.datanadhi/agent-status.lock''}\<rparr>"
             and ?env3.0 = example_env]
  by (simp add: EnableAcceptingFlag_cases example_env_def example_config_def example_world_def)

subsection \<open>The control loop\<close>












end
